theory Spec2Isabelle
  imports Complex_Main
begin

section \<open>Python values\<close>

text \<open>
  The handler of \<^verbatim>\<open>backend/lambda_function.py\<close> works on the objects that
  \<^verbatim>\<open>json.loads\<close> builds: \<^verbatim>\<open>None\<close>, booleans, unbounded integers, floats, strings,
  lists and dictionaries. A dictionary is kept as the list of its items; its keys are
  distinct, and \<open>map_of\<close> looks one up. A \<open>char\<close> stands for one code point below 256.
  Of a float the handler only ever asks whether it is zero, so a float is a rational
  or one of the three special values.
\<close>

datatype pyfloat = Finite rat | PosInf | NegInf | NaN

datatype pyval =
    PyNone
  | PyBool bool
  | PyInt int
  | PyFloat pyfloat
  | PyStr string
  | PyList "pyval list"
  | PyDict "(string \<times> pyval) list"

type_synonym pydict = "(string \<times> pyval) list"

text \<open>The exceptions the handler tells apart, each with its \<^verbatim>\<open>str(e)\<close>.\<close>

datatype exn =
    JSONDecodeError string
  | KeyError string
  | TypeError string
  | AttributeError string
  | ValueError string
  | OtherException string

fun str_exn :: "exn \<Rightarrow> string" where
  "str_exn (JSONDecodeError m) = m"
| "str_exn (KeyError m) = m"
| "str_exn (TypeError m) = m"
| "str_exn (AttributeError m) = m"
| "str_exn (ValueError m) = m"
| "str_exn (OtherException m) = m"

text \<open>\<^verbatim>\<open>type(v).__name__\<close>, as it appears in the messages of the interpreter.\<close>

fun type_name :: "pyval \<Rightarrow> string" where
  "type_name PyNone = ''NoneType''"
| "type_name (PyBool _) = ''bool''"
| "type_name (PyInt _) = ''int''"
| "type_name (PyFloat _) = ''float''"
| "type_name (PyStr _) = ''str''"
| "type_name (PyList _) = ''list''"
| "type_name (PyDict _) = ''dict''"

text \<open>Truth value of an object: what \<^verbatim>\<open>not v\<close> negates.\<close>

fun truthy :: "pyval \<Rightarrow> bool" where
  "truthy PyNone = False"
| "truthy (PyBool b) = b"
| "truthy (PyInt n) = (n \<noteq> 0)"
| "truthy (PyFloat x) = (x \<noteq> Finite 0)"
| "truthy (PyStr s) = (s \<noteq> [])"
| "truthy (PyList xs) = (xs \<noteq> [])"
| "truthy (PyDict d) = (d \<noteq> [])"

text \<open>A text between single quotes, as \<^verbatim>\<open>repr\<close> and the interpreter's messages print it.\<close>

definition quoted :: "string \<Rightarrow> string" where
  "quoted s = [CHR 0x27] @ s @ [CHR 0x27]"

text \<open>\<^verbatim>\<open>d[k]\<close> on a dictionary raises \<^verbatim>\<open>KeyError(k)\<close>, whose text is \<^verbatim>\<open>repr(k)\<close>.\<close>

definition subscript :: "pydict \<Rightarrow> string \<Rightarrow> exn + pyval" where
  "subscript d k =
     (case map_of d k of
        None \<Rightarrow> Inl (KeyError (quoted k))
      | Some v \<Rightarrow> Inr v)"

text \<open>\<^verbatim>\<open>v.get(k, dflt)\<close>: only a dictionary has the method.\<close>

definition dict_get :: "pydict \<Rightarrow> string \<Rightarrow> pyval \<Rightarrow> pyval" where
  "dict_get d k dflt = (case map_of d k of None \<Rightarrow> dflt | Some v \<Rightarrow> v)"

fun py_get :: "pyval \<Rightarrow> string \<Rightarrow> pyval \<Rightarrow> exn + pyval" where
  "py_get (PyDict d) k dflt = Inr (dict_get d k dflt)"
| "py_get v k dflt =
     Inl (AttributeError (quoted (type_name v) @ '' object has no attribute '' @ quoted ''get''))"

text \<open>\<^verbatim>\<open>str.isspace\<close> on the code points below 256, and \<^verbatim>\<open>str.strip()\<close>.\<close>

definition py_isspace :: "char \<Rightarrow> bool" where
  "py_isspace c \<longleftrightarrow>
     c \<in> set [CHR 0x09, CHR 0x0A, CHR 0x0B, CHR 0x0C, CHR 0x0D, CHR 0x1C, CHR 0x1D,
              CHR 0x1E, CHR 0x1F, CHR 0x20, CHR 0x85, CHR 0xA0]"

definition strip :: "string \<Rightarrow> string" where
  "strip s = rev (dropWhile py_isspace (rev (dropWhile py_isspace s)))"

fun py_strip :: "pyval \<Rightarrow> exn + string" where
  "py_strip (PyStr s) = Inr (strip s)"
| "py_strip v =
     Inl (AttributeError (quoted (type_name v) @ '' object has no attribute '' @ quoted ''strip''))"

section \<open>\<^verbatim>\<open>json.dumps\<close> on the response bodies\<close>

text \<open>
  The handler serialises dictionaries whose values are booleans and strings only.
  With the default \<^verbatim>\<open>ensure_ascii\<close>, a string is put between double quotes, and a
  double quote, a backslash and every character outside \<^verbatim>\<open>' '..'~'\<close> are escaped;
  items are separated by a comma and a space, a key from its value by a colon and a space.
\<close>

datatype jfield = JBool bool | JString string

definition hexdigit :: "nat \<Rightarrow> char" where
  "hexdigit n = ''0123456789abcdef'' ! (n mod 16)"

definition escape_char :: "char \<Rightarrow> string" where
  "escape_char c =
     (if c = CHR 0x22 then [CHR 0x5C, CHR 0x22]
      else if c = CHR 0x5C then [CHR 0x5C, CHR 0x5C]
      else if c = CHR 0x08 then [CHR 0x5C, CHR ''b'']
      else if c = CHR 0x0C then [CHR 0x5C, CHR ''f'']
      else if c = CHR 0x0A then [CHR 0x5C, CHR ''n'']
      else if c = CHR 0x0D then [CHR 0x5C, CHR ''r'']
      else if c = CHR 0x09 then [CHR 0x5C, CHR ''t'']
      else if (0x20::nat) \<le> of_char c \<and> (of_char c :: nat) \<le> 0x7E then [c]
      else [CHR 0x5C, CHR ''u'', CHR ''0'', CHR ''0'',
            hexdigit (of_char c div 16), hexdigit (of_char c)])"

definition encode_str :: "string \<Rightarrow> string" where
  "encode_str s = [CHR 0x22] @ concat (map escape_char s) @ [CHR 0x22]"

fun dumps_field :: "jfield \<Rightarrow> string" where
  "dumps_field (JBool b) = (if b then ''true'' else ''false'')"
| "dumps_field (JString s) = encode_str s"

fun join :: "string \<Rightarrow> string list \<Rightarrow> string" where
  "join sep [] = []"
| "join sep [x] = x"
| "join sep (x # y # ys) = x @ sep @ join sep (y # ys)"

definition json_dumps :: "(string \<times> jfield) list \<Rightarrow> string" where
  "json_dumps d =
     ''{'' @ join '', '' (map (\<lambda>(k, v). encode_str k @ '': '' @ dumps_field v) d) @ ''}''"

section \<open>Responses, the table and the environment\<close>

record response =
  statusCode :: int
  headers :: "(string \<times> string) list"
  body :: string

text \<open>The dictionary handed to \<^verbatim>\<open>table.put_item\<close>; \<open>feedback_id\<close> is the partition key.\<close>

record item =
  feedback_id :: string
  Name :: pyval
  Email :: pyval
  Category :: pyval
  Rating :: pyval
  Comment :: string
  Timestamp :: string

text \<open>
  The DynamoDB table: its contents by partition key, and every \<^verbatim>\<open>put_item\<close> call
  issued so far, oldest first. A call either stores the item under its key or raises;
  a call that raises leaves the contents as they were.
\<close>

record store =
  items :: "string \<rightharpoonup> item"
  put_calls :: "item list"

text \<open>
  What one invocation takes from outside the module: the parser \<^verbatim>\<open>json.loads\<close> on a
  string (the parsed object, or the exception raised), the value of
  \<^verbatim>\<open>str(uuid.uuid4())\<close>, the value of \<^verbatim>\<open>datetime.now().isoformat()\<close>, and
  the exception, if any, with which the table answers a \<^verbatim>\<open>put_item\<close>.
\<close>

record env =
  json_loads :: "string \<Rightarrow> exn + pyval"
  uuid4 :: string
  now_isoformat :: string
  put_item_fault :: "item \<Rightarrow> exn option"

text \<open>\<^verbatim>\<open>json.loads(v)\<close>: an argument that is not a string is refused with a TypeError.\<close>

definition loads :: "env \<Rightarrow> pyval \<Rightarrow> exn + pyval" where
  "loads env v =
     (case v of
        PyStr s \<Rightarrow> json_loads env s
      | _ \<Rightarrow> Inl (TypeError (''the JSON object must be str, bytes or bytearray, not ''
                              @ type_name v)))"

definition put_item :: "env \<Rightarrow> item \<Rightarrow> store \<Rightarrow> (exn + unit) \<times> store" where
  "put_item env it s =
     (case put_item_fault env it of
        Some e \<Rightarrow> (Inl e, s\<lparr>put_calls := put_calls s @ [it]\<rparr>)
      | None \<Rightarrow>
          (Inr (), s\<lparr>items := (items s)(feedback_id it \<mapsto> it),
                     put_calls := put_calls s @ [it]\<rparr>))"

section \<open>The module\<close>

text \<open>
  Lines 10 to 16: the table name is \<^verbatim>\<open>os.environ.get('DYNAMODB_TABLE_NAME')\<close>;
  when it is \<^verbatim>\<open>None\<close> or empty the import of the module raises.
\<close>

definition module_init :: "string option \<Rightarrow> exn + string" where
  "module_init table_name =
     (case table_name of
        None \<Rightarrow> Inl (ValueError ''DYNAMODB_TABLE_NAME environment variable is not set.'')
      | Some n \<Rightarrow>
          if n = [] then Inl (ValueError ''DYNAMODB_TABLE_NAME environment variable is not set.'')
          else Inr n)"

definition cors_headers :: "(string \<times> string) list" where
  "cors_headers =
     [(''Access-Control-Allow-Origin'', ''*''),
      (''Access-Control-Allow-Headers'',
       ''Content-Type,X-Amz-Date,Authorization,X-Api-Key,X-Amz-Security-Token''),
      (''Access-Control-Allow-Methods'', ''POST,OPTIONS'')]"

text \<open>\<^verbatim>\<open>not isinstance(rating, int) or rating < 1 or rating > 5\<close>; a bool is an int.\<close>

fun rating_rejected :: "pyval \<Rightarrow> bool" where
  "rating_rejected (PyInt n) = (n < 1 \<or> n > 5)"
| "rating_rejected (PyBool b) = ((of_bool b :: int) < 1 \<or> (of_bool b :: int) > 5)"
| "rating_rejected v = True"

text \<open>
  The body of the \<^verbatim>\<open>try\<close> statement, lines 51 to 127. \<open>Inl e\<close> is the exception
  \<open>e\<close> leaving the block, \<open>Inr r\<close> a \<^verbatim>\<open>return r\<close> inside it. The source's locals
  \<^verbatim>\<open>body\<close> and \<^verbatim>\<open>feedback_id\<close> are \<open>parsed\<close> and \<open>new_id\<close> here, the names being
  taken by the fields of the response and of the item.
\<close>

definition try_block :: "env \<Rightarrow> pydict \<Rightarrow> store \<Rightarrow> (exn + response) \<times> store" where
  "try_block env event s =
     (case subscript event ''body'' of Inl e \<Rightarrow> (Inl e, s) | Inr raw \<Rightarrow>
      (case loads env raw of Inl e \<Rightarrow> (Inl e, s) | Inr parsed \<Rightarrow>
      (case py_get parsed ''name'' (PyStr ''Anonymous'') of Inl e \<Rightarrow> (Inl e, s) | Inr name \<Rightarrow>
      (case py_get parsed ''email'' (PyStr ''N/A'') of Inl e \<Rightarrow> (Inl e, s) | Inr email \<Rightarrow>
      (case py_get parsed ''category'' (PyStr ''General'') of Inl e \<Rightarrow> (Inl e, s) | Inr category \<Rightarrow>
      (case py_get parsed ''rating'' (PyInt 0) of Inl e \<Rightarrow> (Inl e, s) | Inr rating \<Rightarrow>
      (case py_get parsed ''comment'' (PyStr []) of Inl e \<Rightarrow> (Inl e, s) | Inr c \<Rightarrow>
      (case py_strip c of Inl e \<Rightarrow> (Inl e, s) | Inr comment \<Rightarrow>
      if \<not> truthy name then
        (Inr \<lparr>statusCode = 400, headers = cors_headers,
              body = json_dumps [(''success'', JBool False),
                                 (''error'', JString ''Feedback name cannot be empty.'')]\<rparr>, s)
      else if \<not> truthy email then
        (Inr \<lparr>statusCode = 400, headers = cors_headers,
              body = json_dumps [(''success'', JBool False),
                                 (''error'', JString ''Feedback email cannot be empty.'')]\<rparr>, s)
      else if \<not> truthy (PyStr comment) then
        (Inr \<lparr>statusCode = 400, headers = cors_headers,
              body = json_dumps [(''success'', JBool False),
                                 (''error'', JString ''Feedback comment cannot be empty.'')]\<rparr>, s)
      else if rating_rejected rating then
        (Inr \<lparr>statusCode = 400, headers = cors_headers,
              body = json_dumps [(''success'', JBool False),
                                 (''error'', JString ''Rating must be an integer between 1 and 5.'')]\<rparr>, s)
      else
        let new_id = uuid4 env;
            timestamp = now_isoformat env;
            item = \<lparr>feedback_id = new_id, Name = name, Email = email,
                    Category = category, Rating = rating, Comment = comment,
                    Timestamp = timestamp\<rparr>
        in (case put_item env item s of
             (Inl e, s') \<Rightarrow> (Inl e, s')
           | (Inr u, s') \<Rightarrow>
               (Inr \<lparr>statusCode = 200, headers = cors_headers,
                     body = json_dumps [(''success'', JBool True),
                                        (''message'', JString ''Feedback submitted successfully!''),
                                        (''feedbackId'', JString new_id)]\<rparr>, s'))))))))))"

text \<open>
  The handler, lines 18 to 161, on the event dictionary that the gateway hands over.
  The result \<open>Inl e\<close> is an exception that leaves the handler; \<^verbatim>\<open>event['httpMethod']\<close> is read outside the \<^verbatim>\<open>try\<close> statement. The
  three \<^verbatim>\<open>except\<close> clauses are tried in the order of the source. The two
  \<^verbatim>\<open>print\<close> calls write to the log only and are left out.
\<close>

definition lambda_handler :: "env \<Rightarrow> pydict \<Rightarrow> store \<Rightarrow> (exn + response) \<times> store" where
  "lambda_handler env event s =
     (case subscript event ''httpMethod'' of
        Inl e \<Rightarrow> (Inl e, s)
      | Inr m \<Rightarrow>
          if m = PyStr ''OPTIONS'' then
            (Inr \<lparr>statusCode = 200, headers = cors_headers, body = []\<rparr>, s)
          else if m = PyStr ''POST'' then
            (case try_block env event s of
               (Inr r, s') \<Rightarrow> (Inr r, s')
             | (Inl (JSONDecodeError msg), s') \<Rightarrow>
                 (Inr \<lparr>statusCode = 400, headers = cors_headers,
                       body = json_dumps [(''success'', JBool False),
                                          (''error'', JString ''Invalid JSON in request body.'')]\<rparr>, s')
             | (Inl (KeyError msg), s') \<Rightarrow>
                 (Inr \<lparr>statusCode = 400, headers = cors_headers,
                       body = json_dumps [(''success'', JBool False),
                                          (''error'', JString (''Missing expected field: '' @ msg))]\<rparr>, s')
             | (Inl e, s') \<Rightarrow>
                 (Inr \<lparr>statusCode = 500, headers = cors_headers,
                       body = json_dumps [(''success'', JBool False),
                                          (''error'', JString (''Internal server error: '' @ str_exn e))]\<rparr>, s'))
          else
            (Inr \<lparr>statusCode = 405, headers = cors_headers,
                  body = json_dumps [(''success'', JBool False),
                                     (''error'', JString ''Method Not Allowed'')]\<rparr>, s))"

section \<open>Notions used in the statements\<close>

text \<open>
  Abbreviations for what the handler builds: the error and the success response, and
  the item made from a parsed dictionary \<open>d\<close> whose comment is the string \<open>c\<close>.
\<close>

definition error_response :: "int \<Rightarrow> string \<Rightarrow> response" where
  "error_response code msg =
     \<lparr>statusCode = code, headers = cors_headers,
      body = json_dumps [(''success'', JBool False), (''error'', JString msg)]\<rparr>"

definition success_response :: "string \<Rightarrow> response" where
  "success_response fid =
     \<lparr>statusCode = 200, headers = cors_headers,
      body = json_dumps [(''success'', JBool True),
                         (''message'', JString ''Feedback submitted successfully!''),
                         (''feedbackId'', JString fid)]\<rparr>"

definition new_item :: "env \<Rightarrow> pydict \<Rightarrow> string \<Rightarrow> item" where
  "new_item env d c =
     \<lparr>feedback_id = uuid4 env,
      Name = dict_get d ''name'' (PyStr ''Anonymous''),
      Email = dict_get d ''email'' (PyStr ''N/A''),
      Category = dict_get d ''category'' (PyStr ''General''),
      Rating = dict_get d ''rating'' (PyInt 0),
      Comment = strip c,
      Timestamp = now_isoformat env\<rparr>"

text \<open>
  A parsed body passes the validations when its fields can be extracted (it is a
  dictionary and its comment a string) and none of the four checks of lines 64 to 87
  fires. A valid POST is a POST request whose body is there, parses and passes.
\<close>

fun passes_validations :: "pyval \<Rightarrow> bool" where
  "passes_validations (PyDict d) =
     (case dict_get d ''comment'' (PyStr []) of
        PyStr c \<Rightarrow>
          truthy (dict_get d ''name'' (PyStr ''Anonymous'')) \<and>
          truthy (dict_get d ''email'' (PyStr ''N/A'')) \<and>
          strip c \<noteq> [] \<and>
          \<not> rating_rejected (dict_get d ''rating'' (PyInt 0))
      | _ \<Rightarrow> False)"
| "passes_validations v = False"

definition parses_and_passes :: "env \<Rightarrow> pydict \<Rightarrow> bool" where
  "parses_and_passes env event =
     (case subscript event ''body'' of
        Inl e \<Rightarrow> False
      | Inr raw \<Rightarrow> (case loads env raw of Inl e \<Rightarrow> False | Inr parsed \<Rightarrow> passes_validations parsed))"

definition valid_post :: "env \<Rightarrow> pydict \<Rightarrow> bool" where
  "valid_post env event \<longleftrightarrow>
     subscript event ''httpMethod'' = Inr (PyStr ''POST'') \<and> parses_and_passes env event"

section \<open>Sample requests\<close>

text \<open>
  The request bodies of the examples, and \<^verbatim>\<open>json.loads\<close> tabulated on them: each
  entry is the object the parser returns on that text. On the text that is no JSON the
  parser raises; the table answers every text it does not list in the same way, and
  the examples use listed texts only.
\<close>

definition body_ok :: string where
  \<open>body_ok = ''{"name":"A","email":"a@b.com","comment":"hi","rating":5}''\<close>

definition body_empty_name :: string where
  \<open>body_empty_name = ''{"name":"","email":"a@b.com","comment":"hi","rating":5}''\<close>

definition body_empty_email :: string where
  \<open>body_empty_email = ''{"name":"A","email":"","comment":"hi","rating":5}''\<close>

definition body_blank_comment :: string where
  \<open>body_blank_comment = ''{"name":"A","email":"a@b.com","comment":"   ","rating":5}''\<close>

definition body_rating_6 :: string where
  \<open>body_rating_6 = ''{"name":"A","email":"a@b.com","comment":"hi","rating":6}''\<close>

definition body_no_rating :: string where
  \<open>body_no_rating = ''{"name":"A","email":"a@b.com","comment":"hi"}''\<close>

definition body_blank_name :: string where
  \<open>body_blank_name = ''{"name":"   ","email":"a@b.com","comment":"hi","rating":5}''\<close>

definition body_bool_rating :: string where
  \<open>body_bool_rating = ''{"name":"A","email":"a@b.com","comment":"hi","rating":true}''\<close>

definition body_number_comment :: string where
  \<open>body_number_comment = ''{"name":"","email":"a@b.com","comment":5,"rating":5}''\<close>

definition body_not_json :: string where
  "body_not_json = ''not json''"

definition feedback :: "pyval \<Rightarrow> pyval \<Rightarrow> pyval \<Rightarrow> pyval \<Rightarrow> pyval" where
  "feedback n e c r =
     PyDict [(''name'', n), (''email'', e), (''comment'', c), (''rating'', r)]"

definition sample_loads :: "string \<Rightarrow> exn + pyval" where
  "sample_loads t =
     (if t = body_ok then
        Inr (feedback (PyStr ''A'') (PyStr ''a@b.com'') (PyStr ''hi'') (PyInt 5))
      else if t = body_empty_name then
        Inr (feedback (PyStr []) (PyStr ''a@b.com'') (PyStr ''hi'') (PyInt 5))
      else if t = body_empty_email then
        Inr (feedback (PyStr ''A'') (PyStr []) (PyStr ''hi'') (PyInt 5))
      else if t = body_blank_comment then
        Inr (feedback (PyStr ''A'') (PyStr ''a@b.com'') (PyStr ''   '') (PyInt 5))
      else if t = body_rating_6 then
        Inr (feedback (PyStr ''A'') (PyStr ''a@b.com'') (PyStr ''hi'') (PyInt 6))
      else if t = body_no_rating then
        Inr (PyDict [(''name'', PyStr ''A''), (''email'', PyStr ''a@b.com''),
                     (''comment'', PyStr ''hi'')])
      else if t = body_blank_name then
        Inr (feedback (PyStr ''   '') (PyStr ''a@b.com'') (PyStr ''hi'') (PyInt 5))
      else if t = body_bool_rating then
        Inr (feedback (PyStr ''A'') (PyStr ''a@b.com'') (PyStr ''hi'') (PyBool True))
      else if t = body_number_comment then
        Inr (feedback (PyStr []) (PyStr ''a@b.com'') (PyInt 5) (PyInt 5))
      else Inl (JSONDecodeError ''Expecting value: line 1 column 1 (char 0)''))"

definition sample_env :: env where
  "sample_env =
     \<lparr>json_loads = sample_loads,
      uuid4 = ''0b9f8e2c-6f0d-4c3a-9d57-2a1e4c7b8f10'',
      now_isoformat = ''2024-05-17T09:41:03.120457'',
      put_item_fault = (\<lambda>it. None)\<rparr>"

text \<open>The same environment with a table that refuses every write.\<close>

definition failing_env :: env where
  "failing_env =
     sample_env\<lparr>put_item_fault :=
       (\<lambda>it. Some (OtherException ''An error occurred (ResourceNotFoundException) when calling the PutItem operation: Requested resource not found''))\<rparr>"

text \<open>The same environment with a table whose write raises a KeyError.\<close>

definition keyerror_env :: env where
  "keyerror_env =
     sample_env\<lparr>put_item_fault := (\<lambda>it. Some (KeyError (quoted ''feedback_id'')))\<rparr>"

definition empty_store :: store where
  "empty_store = \<lparr>items = Map.empty, put_calls = []\<rparr>"

definition request :: "string \<Rightarrow> pyval \<Rightarrow> pydict" where
  "request m b = [(''httpMethod'', PyStr m), (''body'', b)]"

definition sample_item :: "pyval \<Rightarrow> pyval \<Rightarrow> item" where
  "sample_item n r =
     \<lparr>feedback_id = ''0b9f8e2c-6f0d-4c3a-9d57-2a1e4c7b8f10'', Name = n,
      Email = PyStr ''a@b.com'', Category = PyStr ''General'', Rating = r,
      Comment = ''hi'', Timestamp = ''2024-05-17T09:41:03.120457''\<rparr>"

section \<open>The shape of the handler\<close>

lemma try_block_dict:
  assumes "subscript event ''body'' = Inr raw"
      and "loads env raw = Inr (PyDict d)"
      and "dict_get d ''comment'' (PyStr []) = PyStr c"
  shows "try_block env event s =
     (if \<not> truthy (dict_get d ''name'' (PyStr ''Anonymous'')) then
        (Inr (error_response 400 ''Feedback name cannot be empty.''), s)
      else if \<not> truthy (dict_get d ''email'' (PyStr ''N/A'')) then
        (Inr (error_response 400 ''Feedback email cannot be empty.''), s)
      else if strip c = [] then
        (Inr (error_response 400 ''Feedback comment cannot be empty.''), s)
      else if rating_rejected (dict_get d ''rating'' (PyInt 0)) then
        (Inr (error_response 400 ''Rating must be an integer between 1 and 5.''), s)
      else (case put_item env (new_item env d c) s of
              (Inl e, s') \<Rightarrow> (Inl e, s')
            | (Inr u, s') \<Rightarrow> (Inr (success_response (uuid4 env)), s')))"
  using assms
  by (simp add: try_block_def error_response_def success_response_def new_item_def Let_def
           split: prod.splits sum.splits)

lemma try_block_strip_raises:
  assumes "subscript event ''body'' = Inr raw"
      and "loads env raw = Inr (PyDict d)"
      and "py_strip (dict_get d ''comment'' (PyStr [])) = Inl e"
  shows "try_block env event s = (Inl e, s)"
  using assms by (simp add: try_block_def)

lemma py_strip_cases:
  "(\<exists>c. v = PyStr c \<and> py_strip v = Inr (strip c)) \<or>
   (\<exists>m. py_strip v = Inl (AttributeError m))"
  by (cases v) simp_all

lemma try_block_valid:
  assumes "subscript event ''body'' = Inr raw"
      and "loads env raw = Inr (PyDict d)"
      and "dict_get d ''comment'' (PyStr []) = PyStr c"
      and "truthy (dict_get d ''name'' (PyStr ''Anonymous''))"
      and "truthy (dict_get d ''email'' (PyStr ''N/A''))"
      and "strip c \<noteq> []"
      and "\<not> rating_rejected (dict_get d ''rating'' (PyInt 0))"
  shows "try_block env event s =
     (case put_item_fault env (new_item env d c) of
        Some e \<Rightarrow> (Inl e, s\<lparr>put_calls := put_calls s @ [new_item env d c]\<rparr>)
      | None \<Rightarrow>
          (Inr (success_response (uuid4 env)),
           s\<lparr>items := (items s)(uuid4 env \<mapsto> new_item env d c),
             put_calls := put_calls s @ [new_item env d c]\<rparr>))"
proof -
  have "feedback_id (new_item env d c) = uuid4 env"
    by (simp add: new_item_def)
  then show ?thesis
    using assms by (simp add: try_block_dict put_item_def split: option.splits)
qed

lemma passes_validationsD:
  assumes "passes_validations parsed"
  obtains d c where "parsed = PyDict d" and "dict_get d ''comment'' (PyStr []) = PyStr c"
    and "truthy (dict_get d ''name'' (PyStr ''Anonymous''))"
    and "truthy (dict_get d ''email'' (PyStr ''N/A''))"
    and "strip c \<noteq> []"
    and "\<not> rating_rejected (dict_get d ''rating'' (PyInt 0))"
  using assms by (cases parsed) (auto split: pyval.splits)

lemma try_block_not_passing:
  assumes "\<not> parses_and_passes env event"
  shows "snd (try_block env event s) = s \<and>
         (\<forall>r. fst (try_block env event s) = Inr r \<longrightarrow> statusCode r = 400)"
proof (cases "subscript event ''body''")
  case (Inl e)
  then show ?thesis by (simp add: try_block_def)
next
  case body: (Inr raw)
  show ?thesis
  proof (cases "loads env raw")
    case (Inl e)
    with body show ?thesis by (simp add: try_block_def)
  next
    case parsed: (Inr parsed)
    with body assms have np: "\<not> passes_validations parsed"
      by (simp add: parses_and_passes_def)
    show ?thesis
    proof (cases parsed)
      case (PyDict d)
      show ?thesis
      proof (cases "dict_get d ''comment'' (PyStr [])")
        case (PyStr c)
        with np PyDict have
          "\<not> truthy (dict_get d ''name'' (PyStr ''Anonymous'')) \<or>
           \<not> truthy (dict_get d ''email'' (PyStr ''N/A'')) \<or> strip c = [] \<or>
           rating_rejected (dict_get d ''rating'' (PyInt 0))"
          by auto
        then show ?thesis
          using try_block_dict [OF body parsed [unfolded PyDict] PyStr, of s]
          by (auto simp: error_response_def)
      qed (use body parsed PyDict in \<open>simp_all add: try_block_def\<close>)
    qed (use body parsed in \<open>simp_all add: try_block_def\<close>)
  qed
qed

lemma try_block_passing:
  assumes "parses_and_passes env event"
  obtains raw d c where "subscript event ''body'' = Inr raw"
    and "loads env raw = Inr (PyDict d)"
    and "dict_get d ''comment'' (PyStr []) = PyStr c"
    and "truthy (dict_get d ''name'' (PyStr ''Anonymous''))"
    and "truthy (dict_get d ''email'' (PyStr ''N/A''))"
    and "strip c \<noteq> []"
    and "\<not> rating_rejected (dict_get d ''rating'' (PyInt 0))"
proof -
  from assms obtain raw parsed where "subscript event ''body'' = Inr raw"
    and "loads env raw = Inr parsed" and "passes_validations parsed"
    by (auto simp: parses_and_passes_def split: sum.splits)
  then show thesis
    using that by (auto elim!: passes_validationsD)
qed

lemma try_block_headers:
  "try_block env event s = (Inr r, s') \<Longrightarrow> headers r = cors_headers"
  unfolding try_block_def Let_def
  by (auto split: sum.splits if_splits prod.splits)

text \<open>The \<^verbatim>\<open>except\<close> clauses of lines 129 to 153, as the handler applies them.\<close>

lemma lambda_handler_post:
  assumes "subscript event ''httpMethod'' = Inr (PyStr ''POST'')"
  shows "lambda_handler env event s =
     (case try_block env event s of
        (Inr r, s') \<Rightarrow> (Inr r, s')
      | (Inl (JSONDecodeError m), s') \<Rightarrow>
          (Inr (error_response 400 ''Invalid JSON in request body.''), s')
      | (Inl (KeyError m), s') \<Rightarrow>
          (Inr (error_response 400 (''Missing expected field: '' @ m)), s')
      | (Inl e, s') \<Rightarrow>
          (Inr (error_response 500 (''Internal server error: '' @ str_exn e)), s'))"
  using assms
  by (simp add: lambda_handler_def error_response_def split: prod.splits sum.splits exn.splits)

section \<open>The sample requests evaluated\<close>

lemma request_method: "subscript (request m b) ''httpMethod'' = Inr (PyStr m)"
  by (simp add: subscript_def request_def)

lemma request_body: "subscript (request m b) ''body'' = Inr b"
  by (simp add: subscript_def request_def)

lemma json_loads_envs:
  "json_loads sample_env = sample_loads" "json_loads failing_env = sample_loads"
  "json_loads keyerror_env = sample_loads"
  by (simp_all add: sample_env_def failing_env_def keyerror_env_def)

lemma uuid4_envs:
  "uuid4 sample_env = ''0b9f8e2c-6f0d-4c3a-9d57-2a1e4c7b8f10''"
  "uuid4 failing_env = ''0b9f8e2c-6f0d-4c3a-9d57-2a1e4c7b8f10''"
  "uuid4 keyerror_env = ''0b9f8e2c-6f0d-4c3a-9d57-2a1e4c7b8f10''"
  by (simp_all add: sample_env_def failing_env_def keyerror_env_def)

lemma put_item_fault_envs:
  "put_item_fault sample_env it = None"
  "put_item_fault failing_env it = Some (OtherException ''An error occurred (ResourceNotFoundException) when calling the PutItem operation: Requested resource not found'')"
  "put_item_fault keyerror_env it = Some (KeyError (quoted ''feedback_id''))"
  by (simp_all add: sample_env_def failing_env_def keyerror_env_def)

lemma loads_body_ok:
  "sample_loads body_ok =
     Inr (feedback (PyStr ''A'') (PyStr ''a@b.com'') (PyStr ''hi'') (PyInt 5))"
  by (simp add: sample_loads_def)

lemma loads_body_empty_name:
  "sample_loads body_empty_name =
     Inr (feedback (PyStr []) (PyStr ''a@b.com'') (PyStr ''hi'') (PyInt 5))"
  by (simp add: sample_loads_def body_ok_def body_empty_name_def)

lemma loads_body_empty_email:
  "sample_loads body_empty_email =
     Inr (feedback (PyStr ''A'') (PyStr []) (PyStr ''hi'') (PyInt 5))"
  by (simp add: sample_loads_def body_ok_def body_empty_name_def body_empty_email_def)

lemma loads_body_blank_comment:
  "sample_loads body_blank_comment =
     Inr (feedback (PyStr ''A'') (PyStr ''a@b.com'') (PyStr ''   '') (PyInt 5))"
  by (simp add: sample_loads_def body_ok_def body_empty_name_def body_empty_email_def
        body_blank_comment_def)

lemma loads_body_rating_6:
  "sample_loads body_rating_6 =
     Inr (feedback (PyStr ''A'') (PyStr ''a@b.com'') (PyStr ''hi'') (PyInt 6))"
  by (simp add: sample_loads_def body_ok_def body_empty_name_def body_empty_email_def
        body_blank_comment_def body_rating_6_def)

lemma loads_body_no_rating:
  "sample_loads body_no_rating =
     Inr (PyDict [(''name'', PyStr ''A''), (''email'', PyStr ''a@b.com''),
                  (''comment'', PyStr ''hi'')])"
  by (simp add: sample_loads_def body_ok_def body_empty_name_def body_empty_email_def
        body_blank_comment_def body_rating_6_def body_no_rating_def)

lemma loads_body_blank_name:
  "sample_loads body_blank_name =
     Inr (feedback (PyStr ''   '') (PyStr ''a@b.com'') (PyStr ''hi'') (PyInt 5))"
  by (simp add: sample_loads_def body_ok_def body_empty_name_def body_empty_email_def
        body_blank_comment_def body_rating_6_def body_no_rating_def body_blank_name_def)

lemma loads_body_bool_rating:
  "sample_loads body_bool_rating =
     Inr (feedback (PyStr ''A'') (PyStr ''a@b.com'') (PyStr ''hi'') (PyBool True))"
  by (simp add: sample_loads_def body_ok_def body_empty_name_def body_empty_email_def
        body_blank_comment_def body_rating_6_def body_no_rating_def body_blank_name_def
        body_bool_rating_def)

lemma loads_body_number_comment:
  "sample_loads body_number_comment =
     Inr (feedback (PyStr []) (PyStr ''a@b.com'') (PyInt 5) (PyInt 5))"
  by (simp add: sample_loads_def body_ok_def body_empty_name_def body_empty_email_def
        body_blank_comment_def body_rating_6_def body_no_rating_def body_blank_name_def
        body_bool_rating_def body_number_comment_def)

lemma loads_body_not_json:
  "sample_loads body_not_json =
     Inl (JSONDecodeError ''Expecting value: line 1 column 1 (char 0)'')"
  by (simp add: sample_loads_def body_ok_def body_empty_name_def body_empty_email_def
        body_blank_comment_def body_rating_6_def body_no_rating_def body_blank_name_def
        body_bool_rating_def body_number_comment_def body_not_json_def)

lemma strip_hi: "strip ''hi'' = ''hi''"
  by (simp add: strip_def py_isspace_def)

lemma strip_blank: "strip ''   '' = []"
  by (simp add: strip_def py_isspace_def)

lemma feedback_fields:
  "dict_get [(''name'', n), (''email'', e), (''comment'', c), (''rating'', r)] ''name'' x = n"
  "dict_get [(''name'', n), (''email'', e), (''comment'', c), (''rating'', r)] ''email'' x = e"
  "dict_get [(''name'', n), (''email'', e), (''comment'', c), (''rating'', r)] ''comment'' x = c"
  "dict_get [(''name'', n), (''email'', e), (''comment'', c), (''rating'', r)] ''rating'' x = r"
  "dict_get [(''name'', n), (''email'', e), (''comment'', c), (''rating'', r)] ''category'' x = x"
  by (simp_all add: dict_get_def)

lemma new_item_sample:
  "new_item sample_env [(''name'', n), (''email'', PyStr ''a@b.com''), (''comment'', PyStr ''hi''),
      (''rating'', r)] ''hi'' = sample_item n r"
  "new_item failing_env [(''name'', n), (''email'', PyStr ''a@b.com''), (''comment'', PyStr ''hi''),
      (''rating'', r)] ''hi'' = sample_item n r"
  "new_item keyerror_env [(''name'', n), (''email'', PyStr ''a@b.com''), (''comment'', PyStr ''hi''),
      (''rating'', r)] ''hi'' = sample_item n r"
  by (simp_all add: new_item_def sample_item_def feedback_fields strip_hi sample_env_def
        failing_env_def keyerror_env_def)

lemma post_sample:
  assumes "sample_loads t = Inr (feedback n (PyStr ''a@b.com'') (PyStr ''hi'') r)"
      and "truthy n" and "\<not> rating_rejected r"
  shows "lambda_handler sample_env (request ''POST'' (PyStr t)) s =
           (Inr (success_response ''0b9f8e2c-6f0d-4c3a-9d57-2a1e4c7b8f10''),
            s\<lparr>items := (items s)(''0b9f8e2c-6f0d-4c3a-9d57-2a1e4c7b8f10'' \<mapsto> sample_item n r),
              put_calls := put_calls s @ [sample_item n r]\<rparr>)"
    and "lambda_handler failing_env (request ''POST'' (PyStr t)) s =
           (Inr (error_response 500 (''Internal server error: '' @
              ''An error occurred (ResourceNotFoundException) when calling the PutItem operation: Requested resource not found'')),
            s\<lparr>put_calls := put_calls s @ [sample_item n r]\<rparr>)"
proof -
  have l: "loads sample_env (PyStr t) = Inr (PyDict [(''name'', n), (''email'', PyStr ''a@b.com''),
             (''comment'', PyStr ''hi''), (''rating'', r)])"
      "loads failing_env (PyStr t) = Inr (PyDict [(''name'', n), (''email'', PyStr ''a@b.com''),
             (''comment'', PyStr ''hi''), (''rating'', r)])"
    using assms(1) by (simp_all add: loads_def json_loads_envs feedback_def)
  show "lambda_handler sample_env (request ''POST'' (PyStr t)) s =
           (Inr (success_response ''0b9f8e2c-6f0d-4c3a-9d57-2a1e4c7b8f10''),
            s\<lparr>items := (items s)(''0b9f8e2c-6f0d-4c3a-9d57-2a1e4c7b8f10'' \<mapsto> sample_item n r),
              put_calls := put_calls s @ [sample_item n r]\<rparr>)"
    using assms(2,3)
    by (simp add: lambda_handler_post [OF request_method]
          try_block_valid [OF request_body l(1), of "''hi''"]
          feedback_fields strip_hi new_item_sample put_item_fault_envs uuid4_envs)
  show "lambda_handler failing_env (request ''POST'' (PyStr t)) s =
           (Inr (error_response 500 (''Internal server error: '' @
              ''An error occurred (ResourceNotFoundException) when calling the PutItem operation: Requested resource not found'')),
            s\<lparr>put_calls := put_calls s @ [sample_item n r]\<rparr>)"
    using assms(2,3)
    by (simp add: lambda_handler_post [OF request_method]
          try_block_valid [OF request_body l(2), of "''hi''"]
          feedback_fields strip_hi new_item_sample put_item_fault_envs uuid4_envs)
qed

section \<open>The claims\<close>

text \<open>
  C8. A request whose method is OPTIONS is answered with status 200, the CORS headers
  and the empty string as body, whatever its body, the parser and the table are: the
  body is not parsed, nothing is validated and the table is returned as it was.
\<close>

theorem options_preflight:
  assumes "subscript event ''httpMethod'' = Inr (PyStr ''OPTIONS'')"
  shows "lambda_handler env event s =
           (Inr \<lparr>statusCode = 200, headers = cors_headers, body = []\<rparr>, s)"
  using assms by (simp add: lambda_handler_def)

theorem options_preflight_witness:
  "subscript (request ''OPTIONS'' (PyStr body_not_json)) ''httpMethod'' = Inr (PyStr ''OPTIONS'') \<and>
   lambda_handler failing_env (request ''OPTIONS'' (PyStr body_not_json)) empty_store =
     (Inr \<lparr>statusCode = 200, headers = cors_headers, body = []\<rparr>, empty_store)"
  using options_preflight [OF request_method, of failing_env "PyStr body_not_json" empty_store]
  by (simp add: request_method)

text \<open>
  C9. Every response the handler returns, on every path, carries the three CORS
  headers with the values of lines 33 to 37.
\<close>

theorem cors_headers_on_every_response:
  assumes "lambda_handler env event s = (Inr r, s')"
  shows "map_of (headers r) ''Access-Control-Allow-Origin'' = Some ''*'' \<and>
         map_of (headers r) ''Access-Control-Allow-Headers'' =
           Some ''Content-Type,X-Amz-Date,Authorization,X-Api-Key,X-Amz-Security-Token'' \<and>
         map_of (headers r) ''Access-Control-Allow-Methods'' = Some ''POST,OPTIONS''"
proof -
  have "headers r = cors_headers"
    using assms try_block_headers [of env event s r s']
    by (auto simp: lambda_handler_def split: sum.splits if_splits prod.splits exn.splits)
  then show ?thesis
    by (simp add: cors_headers_def)
qed

theorem cors_headers_on_every_response_witness:
  "lambda_handler failing_env (request ''POST'' (PyStr body_ok)) empty_store =
     (Inr (error_response 500 (''Internal server error: '' @
        ''An error occurred (ResourceNotFoundException) when calling the PutItem operation: Requested resource not found'')),
      empty_store\<lparr>put_calls := put_calls empty_store @ [sample_item (PyStr ''A'') (PyInt 5)]\<rparr>) \<and>
   map_of (headers (error_response 500 (''Internal server error: '' @
        ''An error occurred (ResourceNotFoundException) when calling the PutItem operation: Requested resource not found'')))
     ''Access-Control-Allow-Origin'' = Some ''*''"
proof -
  have h: "lambda_handler failing_env (request ''POST'' (PyStr body_ok)) empty_store =
     (Inr (error_response 500 (''Internal server error: '' @
        ''An error occurred (ResourceNotFoundException) when calling the PutItem operation: Requested resource not found'')),
      empty_store\<lparr>put_calls := put_calls empty_store @ [sample_item (PyStr ''A'') (PyInt 5)]\<rparr>)"
    by (rule post_sample(2) [OF loads_body_ok]) simp_all
  from cors_headers_on_every_response [OF h] h show ?thesis
    by blast
qed

text \<open>
  C7, as amended. A POST request whose body is a string on which the parser raises its
  decode error is answered with status 400 and the body \<^verbatim>\<open>{success: false, error:
  "Invalid JSON in request body."}\<close>; the table is returned as it was, and the answer
  does not depend on anything a validation could read.
\<close>

theorem invalid_json_rejected:
  assumes "subscript event ''httpMethod'' = Inr (PyStr ''POST'')"
      and "subscript event ''body'' = Inr raw"
      and "loads env raw = Inl (JSONDecodeError m)"
  shows "lambda_handler env event s =
           (Inr \<lparr>statusCode = 400, headers = cors_headers,
                 body = json_dumps [(''success'', JBool False),
                                    (''error'', JString ''Invalid JSON in request body.'')]\<rparr>, s)"
  using assms by (simp add: lambda_handler_def try_block_def)

theorem invalid_json_rejected_witness:
  "subscript (request ''POST'' (PyStr body_not_json)) ''httpMethod'' = Inr (PyStr ''POST'') \<and>
   subscript (request ''POST'' (PyStr body_not_json)) ''body'' = Inr (PyStr body_not_json) \<and>
   loads sample_env (PyStr body_not_json) =
     Inl (JSONDecodeError ''Expecting value: line 1 column 1 (char 0)'') \<and>
   lambda_handler sample_env (request ''POST'' (PyStr body_not_json)) empty_store =
     (Inr \<lparr>statusCode = 400, headers = cors_headers,
           body = json_dumps [(''success'', JBool False),
                              (''error'', JString ''Invalid JSON in request body.'')]\<rparr>,
      empty_store)"
proof -
  have l: "loads sample_env (PyStr body_not_json) =
     Inl (JSONDecodeError ''Expecting value: line 1 column 1 (char 0)'')"
    by (simp add: loads_def json_loads_envs loads_body_not_json)
  from invalid_json_rejected [OF request_method request_body l, of empty_store] l
  show ?thesis
    by (simp add: request_method request_body)
qed

text \<open>
  C7, as stated, fails on a POST request whose body is \<^verbatim>\<open>null\<close>: the body does not
  parse, the parser raises a TypeError and not its decode error, and the answer is
  status 500.
\<close>

theorem null_body_answered_500:
  "loads sample_env PyNone =
     Inl (TypeError ''the JSON object must be str, bytes or bytearray, not NoneType'') \<and>
   lambda_handler sample_env (request ''POST'' PyNone) empty_store =
     (Inr \<lparr>statusCode = 500, headers = cors_headers,
           body = json_dumps [(''success'', JBool False),
                              (''error'', JString ''Internal server error: the JSON object must be str, bytes or bytearray, not NoneType'')]\<rparr>,
      empty_store)"
  by (simp add: lambda_handler_def try_block_def request_method request_body loads_def)

text \<open>
  C6. A POST request whose parsed body has no \<^verbatim>\<open>rating\<close> key, and a valid name, email
  and comment, gets the rating 0, which the check of line 82 rejects: the answer is
  status 400 with the error "Rating must be an integer between 1 and 5.".
\<close>

theorem missing_rating_rejected:
  assumes "subscript event ''httpMethod'' = Inr (PyStr ''POST'')"
      and "subscript event ''body'' = Inr raw"
      and "loads env raw = Inr (PyDict d)"
      and "map_of d ''rating'' = None"
      and "truthy (dict_get d ''name'' (PyStr ''Anonymous''))"
      and "truthy (dict_get d ''email'' (PyStr ''N/A''))"
      and "dict_get d ''comment'' (PyStr []) = PyStr c"
      and "strip c \<noteq> []"
  shows "dict_get d ''rating'' (PyInt 0) = PyInt 0 \<and> rating_rejected (PyInt 0) \<and>
         lambda_handler env event s =
           (Inr \<lparr>statusCode = 400, headers = cors_headers,
                 body = json_dumps [(''success'', JBool False),
                                    (''error'', JString ''Rating must be an integer between 1 and 5.'')]\<rparr>, s)"
proof -
  have r: "dict_get d ''rating'' (PyInt 0) = PyInt 0"
    using assms(4) by (simp add: dict_get_def)
  then show ?thesis
    using assms
    by (simp add: lambda_handler_post try_block_dict [OF assms(2,3,7)] error_response_def)
qed

theorem missing_rating_rejected_witness:
  "loads sample_env (PyStr body_no_rating) =
     Inr (PyDict [(''name'', PyStr ''A''), (''email'', PyStr ''a@b.com''), (''comment'', PyStr ''hi'')]) \<and>
   lambda_handler sample_env (request ''POST'' (PyStr body_no_rating)) empty_store =
     (Inr \<lparr>statusCode = 400, headers = cors_headers,
           body = json_dumps [(''success'', JBool False),
                              (''error'', JString ''Rating must be an integer between 1 and 5.'')]\<rparr>,
      empty_store)"
proof -
  let ?d = "[(''name'', PyStr ''A''), (''email'', PyStr ''a@b.com''), (''comment'', PyStr ''hi'')]"
  have l: "loads sample_env (PyStr body_no_rating) = Inr (PyDict ?d)"
    by (simp add: loads_def json_loads_envs loads_body_no_rating)
  have r: "map_of ?d ''rating'' = None"
    by simp
  have n: "truthy (dict_get ?d ''name'' (PyStr ''Anonymous''))"
    by (simp add: dict_get_def)
  have e: "truthy (dict_get ?d ''email'' (PyStr ''N/A''))"
    by (simp add: dict_get_def)
  have c: "dict_get ?d ''comment'' (PyStr []) = PyStr ''hi''"
    by (simp add: dict_get_def)
  have k: "strip ''hi'' \<noteq> []"
    by (simp add: strip_hi)
  from missing_rating_rejected [OF request_method request_body l r n e c k, of empty_store] l
  show ?thesis
    by simp
qed

text \<open>
  C2, as amended. For a POST request whose body parses to a dictionary and whose
  comment is a string or absent, the four checks run in
  the order name, email, stripped comment, rating; the first one that fires decides
  the answer, which is status 400 with \<^verbatim>\<open>{success: false, error: <message>}\<close> and the
  message of that field, and the table is returned as it was.
\<close>

theorem validation_order:
  assumes "subscript event ''httpMethod'' = Inr (PyStr ''POST'')"
      and "subscript event ''body'' = Inr raw"
      and "loads env raw = Inr (PyDict d)"
      and "dict_get d ''comment'' (PyStr []) = PyStr c"
  shows "(\<not> truthy (dict_get d ''name'' (PyStr ''Anonymous'')) \<longrightarrow>
            lambda_handler env event s =
              (Inr (error_response 400 ''Feedback name cannot be empty.''), s)) \<and>
         (truthy (dict_get d ''name'' (PyStr ''Anonymous'')) \<and>
          \<not> truthy (dict_get d ''email'' (PyStr ''N/A'')) \<longrightarrow>
            lambda_handler env event s =
              (Inr (error_response 400 ''Feedback email cannot be empty.''), s)) \<and>
         (truthy (dict_get d ''name'' (PyStr ''Anonymous'')) \<and>
          truthy (dict_get d ''email'' (PyStr ''N/A'')) \<and> strip c = [] \<longrightarrow>
            lambda_handler env event s =
              (Inr (error_response 400 ''Feedback comment cannot be empty.''), s)) \<and>
         (truthy (dict_get d ''name'' (PyStr ''Anonymous'')) \<and>
          truthy (dict_get d ''email'' (PyStr ''N/A'')) \<and> strip c \<noteq> [] \<and>
          rating_rejected (dict_get d ''rating'' (PyInt 0)) \<longrightarrow>
            lambda_handler env event s =
              (Inr (error_response 400 ''Rating must be an integer between 1 and 5.''), s))"
  by (simp add: lambda_handler_post [OF assms(1)] try_block_dict [OF assms(2,3,4)])

theorem validation_order_witness:
  "lambda_handler sample_env (request ''POST'' (PyStr body_empty_name)) empty_store =
     (Inr (error_response 400 ''Feedback name cannot be empty.''), empty_store) \<and>
   lambda_handler sample_env (request ''POST'' (PyStr body_empty_email)) empty_store =
     (Inr (error_response 400 ''Feedback email cannot be empty.''), empty_store) \<and>
   lambda_handler sample_env (request ''POST'' (PyStr body_blank_comment)) empty_store =
     (Inr (error_response 400 ''Feedback comment cannot be empty.''), empty_store) \<and>
   lambda_handler sample_env (request ''POST'' (PyStr body_rating_6)) empty_store =
     (Inr (error_response 400 ''Rating must be an integer between 1 and 5.''), empty_store)"
proof -
  have l: "sample_loads t = Inr (feedback n e c r) \<Longrightarrow>
      loads sample_env (PyStr t) =
        Inr (PyDict [(''name'', n), (''email'', e), (''comment'', c), (''rating'', r)])" for t n e c r
    by (simp add: loads_def json_loads_envs feedback_def)
  have c: "dict_get [(''name'', n), (''email'', e), (''comment'', PyStr c), (''rating'', r)]
      ''comment'' (PyStr []) = PyStr c" for n e c r
    by (simp add: feedback_fields)
  note v = validation_order [OF request_method request_body l c, of _ _ _ _ _ empty_store]
  from v [OF loads_body_empty_name] v [OF loads_body_empty_email]
    v [OF loads_body_blank_comment] v [OF loads_body_rating_6]
  show ?thesis
    by (simp add: feedback_fields strip_hi strip_blank)
qed

text \<open>
  C2, as stated, fails on a POST request whose name is empty and whose comment is the
  number 5: line 61 raises before the name is checked, and the answer is status 500,
  not the error of the name.
\<close>

theorem empty_name_number_comment_500:
  "loads sample_env (PyStr body_number_comment) =
     Inr (PyDict [(''name'', PyStr []), (''email'', PyStr ''a@b.com''),
                  (''comment'', PyInt 5), (''rating'', PyInt 5)]) \<and>
   \<not> truthy (PyStr []) \<and>
   lambda_handler sample_env (request ''POST'' (PyStr body_number_comment)) empty_store =
     (Inr \<lparr>statusCode = 500, headers = cors_headers,
           body = json_dumps [(''success'', JBool False),
                              (''error'', JString (''Internal server error: '' @ quoted ''int'' @
                                 '' object has no attribute '' @ quoted ''strip''))]\<rparr>,
      empty_store)"
proof -
  have l: "loads sample_env (PyStr body_number_comment) =
     Inr (PyDict [(''name'', PyStr []), (''email'', PyStr ''a@b.com''),
                  (''comment'', PyInt 5), (''rating'', PyInt 5)])"
    by (simp add: loads_def json_loads_envs loads_body_number_comment feedback_def)
  have "try_block sample_env (request ''POST'' (PyStr body_number_comment)) empty_store =
     (Inl (AttributeError (quoted ''int'' @ '' object has no attribute '' @ quoted ''strip'')),
      empty_store)"
    by (rule try_block_strip_raises [OF request_body l]) (simp add: feedback_fields)
  with l show ?thesis
    by (simp add: lambda_handler_post [OF request_method] error_response_def)
qed

text \<open>
  C1, as amended. A POST request whose body parses and whose fields pass the four
  checks, and whose write the table accepts, is answered with status 200 and the body
  \<^verbatim>\<open>{success: true, message: "Feedback submitted successfully!", feedbackId: <id>}\<close>,
  where \<^verbatim>\<open><id>\<close> is the identifier generated in this invocation; one item is put,
  and it is stored under that identifier.
\<close>

theorem valid_post_success:
  assumes "subscript event ''httpMethod'' = Inr (PyStr ''POST'')"
      and "subscript event ''body'' = Inr raw"
      and "loads env raw = Inr (PyDict d)"
      and "dict_get d ''comment'' (PyStr []) = PyStr c"
      and "truthy (dict_get d ''name'' (PyStr ''Anonymous''))"
      and "truthy (dict_get d ''email'' (PyStr ''N/A''))"
      and "strip c \<noteq> []"
      and "\<not> rating_rejected (dict_get d ''rating'' (PyInt 0))"
      and "put_item_fault env (new_item env d c) = None"
  shows "lambda_handler env event s =
           (Inr \<lparr>statusCode = 200, headers = cors_headers,
                 body = json_dumps [(''success'', JBool True),
                                    (''message'', JString ''Feedback submitted successfully!''),
                                    (''feedbackId'', JString (uuid4 env))]\<rparr>,
            s\<lparr>items := (items s)(uuid4 env \<mapsto> new_item env d c),
              put_calls := put_calls s @ [new_item env d c]\<rparr>) \<and>
         feedback_id (new_item env d c) = uuid4 env"
  using assms(9)
  by (simp add: lambda_handler_post [OF assms(1)] try_block_valid [OF assms(2-8)]
        success_response_def new_item_def)

theorem valid_post_success_witness:
  "loads sample_env (PyStr body_ok) =
     Inr (PyDict [(''name'', PyStr ''A''), (''email'', PyStr ''a@b.com''),
                  (''comment'', PyStr ''hi''), (''rating'', PyInt 5)]) \<and>
   lambda_handler sample_env (request ''POST'' (PyStr body_ok)) empty_store =
     (Inr \<lparr>statusCode = 200, headers = cors_headers,
           body = json_dumps [(''success'', JBool True),
                              (''message'', JString ''Feedback submitted successfully!''),
                              (''feedbackId'', JString ''0b9f8e2c-6f0d-4c3a-9d57-2a1e4c7b8f10'')]\<rparr>,
      \<lparr>items = [''0b9f8e2c-6f0d-4c3a-9d57-2a1e4c7b8f10'' \<mapsto> sample_item (PyStr ''A'') (PyInt 5)],
       put_calls = [sample_item (PyStr ''A'') (PyInt 5)]\<rparr>)"
proof -
  let ?d = "[(''name'', PyStr ''A''), (''email'', PyStr ''a@b.com''),
             (''comment'', PyStr ''hi''), (''rating'', PyInt 5)]"
  have l: "loads sample_env (PyStr body_ok) = Inr (PyDict ?d)"
    by (simp add: loads_def json_loads_envs loads_body_ok feedback_def)
  have c: "dict_get ?d ''comment'' (PyStr []) = PyStr ''hi''"
    by (simp add: feedback_fields)
  have n: "truthy (dict_get ?d ''name'' (PyStr ''Anonymous''))"
    by (simp add: feedback_fields)
  have e: "truthy (dict_get ?d ''email'' (PyStr ''N/A''))"
    by (simp add: feedback_fields)
  have k: "strip ''hi'' \<noteq> []"
    by (simp add: strip_hi)
  have r: "\<not> rating_rejected (dict_get ?d ''rating'' (PyInt 0))"
    by (simp add: feedback_fields)
  have f: "put_item_fault sample_env (new_item sample_env ?d ''hi'') = None"
    by (simp add: put_item_fault_envs)
  from valid_post_success [OF request_method request_body l c n e k r f, of empty_store] l
  show ?thesis
    by (simp add: new_item_sample uuid4_envs empty_store_def)
qed

text \<open>
  C1, as stated, fails when the table refuses the write: the body parses, the fields
  pass the four checks, and the answer is status 500.
\<close>

theorem valid_post_write_refused:
  "valid_post failing_env (request ''POST'' (PyStr body_ok)) \<and>
   lambda_handler failing_env (request ''POST'' (PyStr body_ok)) empty_store =
     (Inr \<lparr>statusCode = 500, headers = cors_headers,
           body = json_dumps [(''success'', JBool False),
                              (''error'', JString ''Internal server error: An error occurred (ResourceNotFoundException) when calling the PutItem operation: Requested resource not found'')]\<rparr>,
      \<lparr>items = Map.empty, put_calls = [sample_item (PyStr ''A'') (PyInt 5)]\<rparr>)"
proof -
  have "valid_post failing_env (request ''POST'' (PyStr body_ok))"
    by (simp add: valid_post_def parses_and_passes_def request_method request_body loads_def
          json_loads_envs loads_body_ok feedback_def feedback_fields strip_hi)
  moreover have "lambda_handler failing_env (request ''POST'' (PyStr body_ok)) empty_store =
     (Inr (error_response 500 (''Internal server error: '' @
        ''An error occurred (ResourceNotFoundException) when calling the PutItem operation: Requested resource not found'')),
      empty_store\<lparr>put_calls := put_calls empty_store @ [sample_item (PyStr ''A'') (PyInt 5)]\<rparr>)"
    by (rule post_sample(2) [OF loads_body_ok]) simp_all
  ultimately show ?thesis
    by (simp add: error_response_def empty_store_def)
qed

text \<open>
  C10, as amended. A POST request whose rating is the boolean \<^verbatim>\<open>true\<close>, with a valid
  name, email and comment, passes the check of line 82; when the table accepts the
  write, the answer is status 200 and the stored item has the boolean as its Rating.
\<close>

theorem bool_rating_accepted:
  assumes "subscript event ''httpMethod'' = Inr (PyStr ''POST'')"
      and "subscript event ''body'' = Inr raw"
      and "loads env raw = Inr (PyDict d)"
      and "map_of d ''rating'' = Some (PyBool True)"
      and "dict_get d ''comment'' (PyStr []) = PyStr c"
      and "truthy (dict_get d ''name'' (PyStr ''Anonymous''))"
      and "truthy (dict_get d ''email'' (PyStr ''N/A''))"
      and "strip c \<noteq> []"
  shows "\<not> rating_rejected (PyBool True) \<and>
         (put_item_fault env (new_item env d c) = None \<longrightarrow>
            lambda_handler env event s =
              (Inr (success_response (uuid4 env)),
               s\<lparr>items := (items s)(uuid4 env \<mapsto> new_item env d c),
                 put_calls := put_calls s @ [new_item env d c]\<rparr>) \<and>
            statusCode (success_response (uuid4 env)) = 200 \<and>
            Rating (new_item env d c) = PyBool True)"
proof -
  have r: "dict_get d ''rating'' (PyInt 0) = PyBool True"
    using assms(4) by (simp add: dict_get_def)
  have v: "\<not> rating_rejected (dict_get d ''rating'' (PyInt 0))"
    by (simp add: r)
  show ?thesis
    by (simp add: lambda_handler_post [OF assms(1)] try_block_valid [OF assms(2,3,5-8) v]
          success_response_def new_item_def r)
qed

theorem bool_rating_accepted_witness:
  "loads sample_env (PyStr body_bool_rating) =
     Inr (PyDict [(''name'', PyStr ''A''), (''email'', PyStr ''a@b.com''),
                  (''comment'', PyStr ''hi''), (''rating'', PyBool True)]) \<and>
   lambda_handler sample_env (request ''POST'' (PyStr body_bool_rating)) empty_store =
     (Inr (success_response ''0b9f8e2c-6f0d-4c3a-9d57-2a1e4c7b8f10''),
      \<lparr>items = [''0b9f8e2c-6f0d-4c3a-9d57-2a1e4c7b8f10'' \<mapsto> sample_item (PyStr ''A'') (PyBool True)],
       put_calls = [sample_item (PyStr ''A'') (PyBool True)]\<rparr>) \<and>
   Rating (sample_item (PyStr ''A'') (PyBool True)) = PyBool True"
proof -
  let ?d = "[(''name'', PyStr ''A''), (''email'', PyStr ''a@b.com''),
             (''comment'', PyStr ''hi''), (''rating'', PyBool True)]"
  have l: "loads sample_env (PyStr body_bool_rating) = Inr (PyDict ?d)"
    by (simp add: loads_def json_loads_envs loads_body_bool_rating feedback_def)
  have b: "map_of ?d ''rating'' = Some (PyBool True)"
    by simp
  have c: "dict_get ?d ''comment'' (PyStr []) = PyStr ''hi''"
    by (simp add: feedback_fields)
  have n: "truthy (dict_get ?d ''name'' (PyStr ''Anonymous''))"
    by (simp add: feedback_fields)
  have e: "truthy (dict_get ?d ''email'' (PyStr ''N/A''))"
    by (simp add: feedback_fields)
  have k: "strip ''hi'' \<noteq> []"
    by (simp add: strip_hi)
  have f: "put_item_fault sample_env (new_item sample_env ?d ''hi'') = None"
    by (simp add: put_item_fault_envs)
  from bool_rating_accepted [OF request_method request_body l b c n e k, of empty_store] l f
  show ?thesis
    by (simp add: new_item_sample uuid4_envs empty_store_def sample_item_def)
qed

text \<open>
  C10, as stated, fails when the table refuses the write: the rating \<^verbatim>\<open>true\<close> passes
  the check, and the answer is status 500 with nothing stored.
\<close>

theorem bool_rating_write_refused:
  "loads failing_env (PyStr body_bool_rating) =
     Inr (PyDict [(''name'', PyStr ''A''), (''email'', PyStr ''a@b.com''),
                  (''comment'', PyStr ''hi''), (''rating'', PyBool True)]) \<and>
   \<not> rating_rejected (PyBool True) \<and>
   lambda_handler failing_env (request ''POST'' (PyStr body_bool_rating)) empty_store =
     (Inr \<lparr>statusCode = 500, headers = cors_headers,
           body = json_dumps [(''success'', JBool False),
                              (''error'', JString ''Internal server error: An error occurred (ResourceNotFoundException) when calling the PutItem operation: Requested resource not found'')]\<rparr>,
      \<lparr>items = Map.empty, put_calls = [sample_item (PyStr ''A'') (PyBool True)]\<rparr>)"
proof -
  have "lambda_handler failing_env (request ''POST'' (PyStr body_bool_rating)) empty_store =
     (Inr (error_response 500 (''Internal server error: '' @
        ''An error occurred (ResourceNotFoundException) when calling the PutItem operation: Requested resource not found'')),
      empty_store\<lparr>put_calls := put_calls empty_store @ [sample_item (PyStr ''A'') (PyBool True)]\<rparr>)"
    by (rule post_sample(2) [OF loads_body_bool_rating]) simp_all
  then show ?thesis
    by (simp add: error_response_def empty_store_def loads_def json_loads_envs
          loads_body_bool_rating feedback_def)
qed

text \<open>
  C5, as amended. The check of line 64 is on the name as received, not on the name
  stripped. For every POST request answered with status 200 the stored name is a
  value that counts as true, so not the empty string. A POST request whose name is the
  empty string is rejected and the table is returned as it was: with status 400 and
  the error of the name when its comment is a string or absent, and with status 500
  when the comment is of another type, since line 61 strips the comment before the
  name is checked.
\<close>

theorem stored_name_truthy:
  assumes "subscript event ''httpMethod'' = Inr (PyStr ''POST'')"
      and "lambda_handler env event s = (Inr r, s')"
  shows "(statusCode r = 200 \<longrightarrow>
            put_calls s' = put_calls s @ [last (put_calls s')] \<and>
            items s' (feedback_id (last (put_calls s'))) = Some (last (put_calls s')) \<and>
            truthy (Name (last (put_calls s'))) \<and>
            Name (last (put_calls s')) \<noteq> PyStr []) \<and>
         (\<forall>raw d. subscript event ''body'' = Inr raw \<and> loads env raw = Inr (PyDict d) \<and>
            dict_get d ''name'' (PyStr ''Anonymous'') = PyStr [] \<longrightarrow>
            s' = s \<and>
            (case py_strip (dict_get d ''comment'' (PyStr [])) of
               Inr c \<Rightarrow> r = error_response 400 ''Feedback name cannot be empty.''
             | Inl e \<Rightarrow> r = error_response 500 (''Internal server error: '' @ str_exn e)))"
proof -
  have empty_name: "s' = s \<and>
      (case py_strip (dict_get d ''comment'' (PyStr [])) of
         Inr c \<Rightarrow> r = error_response 400 ''Feedback name cannot be empty.''
       | Inl e \<Rightarrow> r = error_response 500 (''Internal server error: '' @ str_exn e))"
    if b: "subscript event ''body'' = Inr raw" and l: "loads env raw = Inr (PyDict d)"
      and n: "dict_get d ''name'' (PyStr ''Anonymous'') = PyStr []" for raw d
  proof (cases "py_strip (dict_get d ''comment'' (PyStr []))")
    case (Inl e)
    then obtain m where e: "e = AttributeError m"
      using py_strip_cases [of "dict_get d ''comment'' (PyStr [])"] by auto
    have "try_block env event s = (Inl e, s)"
      by (rule try_block_strip_raises [OF b l Inl])
    with assms e Inl show ?thesis
      by (simp add: lambda_handler_post)
  next
    case (Inr c)
    then obtain c' where c': "dict_get d ''comment'' (PyStr []) = PyStr c'"
      using py_strip_cases [of "dict_get d ''comment'' (PyStr [])"] by auto
    have "try_block env event s =
        (Inr (error_response 400 ''Feedback name cannot be empty.''), s)"
      using n by (simp add: try_block_dict [OF b l c'])
    with assms Inr show ?thesis
      by (simp add: lambda_handler_post)
  qed
  have stored: "put_calls s' = put_calls s @ [last (put_calls s')] \<and>
      items s' (feedback_id (last (put_calls s'))) = Some (last (put_calls s')) \<and>
      truthy (Name (last (put_calls s'))) \<and>
      Name (last (put_calls s')) \<noteq> PyStr []"
    if ok: "statusCode r = 200"
  proof -
    obtain out s1 where tb: "try_block env event s = (out, s1)"
      by (cases "try_block env event s")
    have out: "out = Inr r" and s1: "s1 = s'"
      using assms ok tb
      by (auto simp: lambda_handler_post error_response_def split: sum.splits exn.splits)
    have pp: "parses_and_passes env event"
      using try_block_not_passing [of env event s] tb out ok by auto
    then obtain raw d c where v: "subscript event ''body'' = Inr raw"
        "loads env raw = Inr (PyDict d)" "dict_get d ''comment'' (PyStr []) = PyStr c"
        "truthy (dict_get d ''name'' (PyStr ''Anonymous''))"
        "truthy (dict_get d ''email'' (PyStr ''N/A''))" "strip c \<noteq> []"
        "\<not> rating_rejected (dict_get d ''rating'' (PyInt 0))"
      by (rule try_block_passing)
    have s': "s' = s\<lparr>items := (items s)(uuid4 env \<mapsto> new_item env d c),
                    put_calls := put_calls s @ [new_item env d c]\<rparr>"
      using try_block_valid [OF v, of s] tb out s1 by (auto split: option.splits)
    have nm: "Name (new_item env d c) = dict_get d ''name'' (PyStr ''Anonymous'')"
        and fid: "feedback_id (new_item env d c) = uuid4 env"
      by (simp_all add: new_item_def)
    have t: "truthy (Name (last (put_calls s')))"
      by (simp add: s' nm v(4))
    then have "Name (last (put_calls s')) \<noteq> PyStr []"
      by auto
    with t show ?thesis
      by (simp add: s' fid)
  qed
  from empty_name stored show ?thesis
    by blast
qed

theorem stored_name_truthy_witness:
  "lambda_handler sample_env (request ''POST'' (PyStr body_ok)) empty_store =
     (Inr (success_response ''0b9f8e2c-6f0d-4c3a-9d57-2a1e4c7b8f10''),
      \<lparr>items = [''0b9f8e2c-6f0d-4c3a-9d57-2a1e4c7b8f10'' \<mapsto> sample_item (PyStr ''A'') (PyInt 5)],
       put_calls = [sample_item (PyStr ''A'') (PyInt 5)]\<rparr>) \<and>
   statusCode (success_response ''0b9f8e2c-6f0d-4c3a-9d57-2a1e4c7b8f10'') = 200 \<and>
   truthy (Name (sample_item (PyStr ''A'') (PyInt 5))) \<and>
   lambda_handler sample_env (request ''POST'' (PyStr body_empty_name)) empty_store =
     (Inr (error_response 400 ''Feedback name cannot be empty.''), empty_store)"
proof -
  have h: "lambda_handler sample_env (request ''POST'' (PyStr body_ok)) empty_store =
     (Inr (success_response ''0b9f8e2c-6f0d-4c3a-9d57-2a1e4c7b8f10''),
      \<lparr>items = [''0b9f8e2c-6f0d-4c3a-9d57-2a1e4c7b8f10'' \<mapsto> sample_item (PyStr ''A'') (PyInt 5)],
       put_calls = [sample_item (PyStr ''A'') (PyInt 5)]\<rparr>)"
    using post_sample(1) [OF loads_body_ok, of empty_store] by (simp add: empty_store_def)
  have k: "statusCode (success_response ''0b9f8e2c-6f0d-4c3a-9d57-2a1e4c7b8f10'') = 200"
    by (simp add: success_response_def)
  let ?d = "[(''name'', PyStr []), (''email'', PyStr ''a@b.com''),
             (''comment'', PyStr ''hi''), (''rating'', PyInt 5)]"
  let ?e = "request ''POST'' (PyStr body_empty_name)"
  have l: "loads sample_env (PyStr body_empty_name) = Inr (PyDict ?d)"
    by (simp add: loads_def json_loads_envs loads_body_empty_name feedback_def)
  have n: "dict_get ?d ''name'' (PyStr ''Anonymous'') = PyStr []"
    by (simp add: feedback_fields)
  obtain out s1 where o: "lambda_handler sample_env ?e empty_store = (out, s1)"
    by (cases "lambda_handler sample_env ?e empty_store")
  obtain r1 where r1: "out = Inr r1"
    using o by (cases out)
      (auto simp: lambda_handler_post [OF request_method] split: prod.splits sum.splits exn.splits)
  have "s1 = empty_store \<and> r1 = error_response 400 ''Feedback name cannot be empty.''"
    using stored_name_truthy [OF request_method o [unfolded r1]] request_body [of "''POST''" "PyStr body_empty_name"] l n
    by (auto simp: feedback_fields)
  with o r1 have e: "lambda_handler sample_env ?e empty_store =
      (Inr (error_response 400 ''Feedback name cannot be empty.''), empty_store)"
    by simp
  from stored_name_truthy [OF request_method h] h k e show ?thesis
    by simp
qed

text \<open>
  C5, as stated, fails on a name of three spaces: it is empty after stripping, and
  the request is answered with status 200 and the name stored as it came.
\<close>

theorem blank_name_accepted:
  "loads sample_env (PyStr body_blank_name) =
     Inr (PyDict [(''name'', PyStr ''   ''), (''email'', PyStr ''a@b.com''),
                  (''comment'', PyStr ''hi''), (''rating'', PyInt 5)]) \<and>
   strip ''   '' = [] \<and>
   lambda_handler sample_env (request ''POST'' (PyStr body_blank_name)) empty_store =
     (Inr \<lparr>statusCode = 200, headers = cors_headers,
           body = json_dumps [(''success'', JBool True),
                              (''message'', JString ''Feedback submitted successfully!''),
                              (''feedbackId'', JString ''0b9f8e2c-6f0d-4c3a-9d57-2a1e4c7b8f10'')]\<rparr>,
      \<lparr>items = [''0b9f8e2c-6f0d-4c3a-9d57-2a1e4c7b8f10'' \<mapsto> sample_item (PyStr ''   '') (PyInt 5)],
       put_calls = [sample_item (PyStr ''   '') (PyInt 5)]\<rparr>) \<and>
   Name (sample_item (PyStr ''   '') (PyInt 5)) = PyStr ''   ''"
proof -
  have "lambda_handler sample_env (request ''POST'' (PyStr body_blank_name)) empty_store =
     (Inr (success_response ''0b9f8e2c-6f0d-4c3a-9d57-2a1e4c7b8f10''),
      empty_store\<lparr>items := (items empty_store)(''0b9f8e2c-6f0d-4c3a-9d57-2a1e4c7b8f10'' \<mapsto>
                     sample_item (PyStr ''   '') (PyInt 5)),
        put_calls := put_calls empty_store @ [sample_item (PyStr ''   '') (PyInt 5)]\<rparr>)"
    by (rule post_sample(1) [OF loads_body_blank_name]) simp_all
  then show ?thesis
    by (simp add: success_response_def empty_store_def loads_def json_loads_envs
          loads_body_blank_name feedback_def strip_blank sample_item_def)
qed

text \<open>
  C3, as amended. The handler issues a \<^verbatim>\<open>put_item\<close> exactly when the request is a POST
  whose body parses and passes the validations, and then it issues one; on every other
  request, on the OPTIONS path and on the 405 path the table is returned as it was.
  An answer with status 400 follows no write, except when the write itself raises a
  KeyError or the decode error of the parser, which the \<^verbatim>\<open>except\<close> clauses of lines
  129 to 145 answer with status 400.
\<close>

theorem store_write_iff_valid_post:
  assumes "lambda_handler env event s = (out, s')"
  shows "(put_calls s' \<noteq> put_calls s \<longleftrightarrow> valid_post env event) \<and>
         (valid_post env event \<longrightarrow> put_calls s' = put_calls s @ [last (put_calls s')]) \<and>
         (\<not> valid_post env event \<longrightarrow> s' = s) \<and>
         (\<forall>r. out = Inr r \<and>
               (subscript event ''httpMethod'' = Inr (PyStr ''OPTIONS'') \<or> statusCode r = 405)
               \<longrightarrow> s' = s) \<and>
         (\<forall>r. out = Inr r \<and> statusCode r = 400 \<longrightarrow>
               s' = s \<or>
               (\<exists>m. put_item_fault env (last (put_calls s')) = Some (KeyError m) \<or>
                    put_item_fault env (last (put_calls s')) = Some (JSONDecodeError m)))"
proof (cases "valid_post env event")
  case False
  have "s' = s"
  proof (cases "subscript event ''httpMethod'' = Inr (PyStr ''POST'')")
    case True
    with False have "\<not> parses_and_passes env event"
      by (simp add: valid_post_def)
    then have "snd (try_block env event s) = s"
      using try_block_not_passing by blast
    then show ?thesis
      using assms True
      by (auto simp: lambda_handler_post split: prod.splits sum.splits exn.splits)
  next
    case False
    then show ?thesis
      using assms by (auto simp: lambda_handler_def split: sum.splits if_splits)
  qed
  with False show ?thesis by simp
next
  case True
  then have post: "subscript event ''httpMethod'' = Inr (PyStr ''POST'')"
    and "parses_and_passes env event"
    by (simp_all add: valid_post_def)
  then obtain raw d c where v: "subscript event ''body'' = Inr raw"
      "loads env raw = Inr (PyDict d)" "dict_get d ''comment'' (PyStr []) = PyStr c"
      "truthy (dict_get d ''name'' (PyStr ''Anonymous''))"
      "truthy (dict_get d ''email'' (PyStr ''N/A''))" "strip c \<noteq> []"
      "\<not> rating_rejected (dict_get d ''rating'' (PyInt 0))"
    using try_block_passing by blast
  show ?thesis
  proof (cases "put_item_fault env (new_item env d c)")
    case None
    then have "out = Inr (success_response (uuid4 env))"
      and "s' = s\<lparr>items := (items s)(uuid4 env \<mapsto> new_item env d c),
                   put_calls := put_calls s @ [new_item env d c]\<rparr>"
      using assms by (simp_all add: lambda_handler_post [OF post] try_block_valid [OF v])
    with True post show ?thesis
      by (simp add: success_response_def)
  next
    case (Some e)
    have s': "s' = s\<lparr>put_calls := put_calls s @ [new_item env d c]\<rparr>"
      using assms Some
      by (auto simp: lambda_handler_post [OF post] try_block_valid [OF v] split: exn.splits)
    have out: "out = Inr (case e of
          JSONDecodeError m \<Rightarrow> error_response 400 ''Invalid JSON in request body.''
        | KeyError m \<Rightarrow> error_response 400 (''Missing expected field: '' @ m)
        | _ \<Rightarrow> error_response 500 (''Internal server error: '' @ str_exn e))"
      using assms Some
      by (auto simp: lambda_handler_post [OF post] try_block_valid [OF v] split: exn.splits)
    have l: "last (put_calls s') = new_item env d c"
      by (simp add: s')
    have fault: "\<exists>m. put_item_fault env (last (put_calls s')) = Some (KeyError m) \<or>
        put_item_fault env (last (put_calls s')) = Some (JSONDecodeError m)"
      if "out = Inr r" and "statusCode r = 400" for r
      using that out Some l by (cases e) (auto simp: error_response_def)
    have no405: "statusCode r \<noteq> 405" if "out = Inr r" for r
      using that out by (cases e) (auto simp: error_response_def)
    from True post s' fault no405 show ?thesis
      by auto
  qed
qed

theorem store_write_iff_valid_post_witness:
  "valid_post sample_env (request ''POST'' (PyStr body_ok)) \<and>
   \<not> valid_post sample_env (request ''POST'' (PyStr body_not_json)) \<and>
   put_calls (snd (lambda_handler sample_env (request ''POST'' (PyStr body_ok)) empty_store)) =
     [sample_item (PyStr ''A'') (PyInt 5)] \<and>
   snd (lambda_handler sample_env (request ''POST'' (PyStr body_not_json)) empty_store) =
     empty_store"
proof -
  have a: "valid_post sample_env (request ''POST'' (PyStr body_ok))"
    by (simp add: valid_post_def parses_and_passes_def request_method request_body loads_def
          json_loads_envs loads_body_ok feedback_def feedback_fields strip_hi)
  have b: "\<not> valid_post sample_env (request ''POST'' (PyStr body_not_json))"
    by (simp add: valid_post_def parses_and_passes_def request_method request_body loads_def
          json_loads_envs loads_body_not_json)
  have c: "lambda_handler sample_env (request ''POST'' (PyStr body_ok)) empty_store =
     (Inr (success_response ''0b9f8e2c-6f0d-4c3a-9d57-2a1e4c7b8f10''),
      empty_store\<lparr>items := (items empty_store)(''0b9f8e2c-6f0d-4c3a-9d57-2a1e4c7b8f10'' \<mapsto>
                     sample_item (PyStr ''A'') (PyInt 5)),
        put_calls := put_calls empty_store @ [sample_item (PyStr ''A'') (PyInt 5)]\<rparr>)"
    by (rule post_sample(1) [OF loads_body_ok]) simp_all
  have d: "snd (lambda_handler sample_env (request ''POST'' (PyStr body_not_json)) empty_store) = empty_store"
    using store_write_iff_valid_post
      [of sample_env "request ''POST'' (PyStr body_not_json)" empty_store
          "fst (lambda_handler sample_env (request ''POST'' (PyStr body_not_json)) empty_store)"
          "snd (lambda_handler sample_env (request ''POST'' (PyStr body_not_json)) empty_store)"] b
    by simp
  from a b c d show ?thesis
    by (simp add: empty_store_def)
qed

text \<open>
  C3, as stated, fails when the write raises a KeyError: the request is a POST whose
  body parses and passes the validations, one \<^verbatim>\<open>put_item\<close> is issued, and the answer
  is status 400.
\<close>

theorem write_issued_then_400:
  "valid_post keyerror_env (request ''POST'' (PyStr body_ok)) \<and>
   lambda_handler keyerror_env (request ''POST'' (PyStr body_ok)) empty_store =
     (Inr \<lparr>statusCode = 400, headers = cors_headers,
           body = json_dumps [(''success'', JBool False),
                              (''error'', JString (''Missing expected field: '' @ quoted ''feedback_id''))]\<rparr>,
      \<lparr>items = Map.empty, put_calls = [sample_item (PyStr ''A'') (PyInt 5)]\<rparr>)"
proof -
  let ?d = "[(''name'', PyStr ''A''), (''email'', PyStr ''a@b.com''),
             (''comment'', PyStr ''hi''), (''rating'', PyInt 5)]"
  have l: "loads keyerror_env (PyStr body_ok) = Inr (PyDict ?d)"
    by (simp add: loads_def json_loads_envs loads_body_ok feedback_def)
  have "valid_post keyerror_env (request ''POST'' (PyStr body_ok))"
    by (simp add: valid_post_def parses_and_passes_def request_method request_body l
          feedback_fields strip_hi)
  moreover have "try_block keyerror_env (request ''POST'' (PyStr body_ok)) empty_store =
     (Inl (KeyError (quoted ''feedback_id'')),
      \<lparr>items = Map.empty, put_calls = [sample_item (PyStr ''A'') (PyInt 5)]\<rparr>)"
    by (simp add: try_block_valid [OF request_body l, of "''hi''"] feedback_fields strip_hi
          new_item_sample empty_store_def put_item_fault_envs)
  ultimately show ?thesis
    by (simp add: lambda_handler_post [OF request_method] error_response_def)
qed

text \<open>
  C4, as amended. For a POST request no exception leaves the handler. An exception
  that leaves the \<^verbatim>\<open>try\<close> block is answered by its class: the decode error of the
  parser with status 400 and "Invalid JSON in request body.", a KeyError with status
  400 and "Missing expected field: " followed by its text, and every other exception
  with status 500 and "Internal server error: " followed by its text. The import of
  the module raises when the name of the table is not set.
\<close>

theorem post_faults_are_caught:
  assumes "subscript event ''httpMethod'' = Inr (PyStr ''POST'')"
  shows "(\<exists>r. fst (lambda_handler env event s) = Inr r) \<and>
         (\<forall>e s'. try_block env event s = (Inl e, s') \<longrightarrow>
            lambda_handler env event s =
              (Inr (case e of
                      JSONDecodeError m \<Rightarrow> error_response 400 ''Invalid JSON in request body.''
                    | KeyError m \<Rightarrow> error_response 400 (''Missing expected field: '' @ m)
                    | _ \<Rightarrow> error_response 500 (''Internal server error: '' @ str_exn e)), s')) \<and>
         module_init None =
           Inl (ValueError ''DYNAMODB_TABLE_NAME environment variable is not set.'') \<and>
         module_init (Some []) =
           Inl (ValueError ''DYNAMODB_TABLE_NAME environment variable is not set.'')"
  by (auto simp: lambda_handler_post [OF assms] module_init_def
           split: prod.splits sum.splits exn.splits)

theorem post_faults_are_caught_witness:
  "try_block failing_env (request ''POST'' (PyStr body_ok)) empty_store =
     (Inl (OtherException ''An error occurred (ResourceNotFoundException) when calling the PutItem operation: Requested resource not found''),
      \<lparr>items = Map.empty, put_calls = [sample_item (PyStr ''A'') (PyInt 5)]\<rparr>) \<and>
   lambda_handler failing_env (request ''POST'' (PyStr body_ok)) empty_store =
     (Inr (error_response 500 ''Internal server error: An error occurred (ResourceNotFoundException) when calling the PutItem operation: Requested resource not found''),
      \<lparr>items = Map.empty, put_calls = [sample_item (PyStr ''A'') (PyInt 5)]\<rparr>)"
proof -
  let ?d = "[(''name'', PyStr ''A''), (''email'', PyStr ''a@b.com''),
             (''comment'', PyStr ''hi''), (''rating'', PyInt 5)]"
  have l: "loads failing_env (PyStr body_ok) = Inr (PyDict ?d)"
    by (simp add: loads_def json_loads_envs loads_body_ok feedback_def)
  have t: "try_block failing_env (request ''POST'' (PyStr body_ok)) empty_store =
     (Inl (OtherException ''An error occurred (ResourceNotFoundException) when calling the PutItem operation: Requested resource not found''),
      \<lparr>items = Map.empty, put_calls = [sample_item (PyStr ''A'') (PyInt 5)]\<rparr>)"
    by (simp add: try_block_valid [OF request_body l, of "''hi''"] feedback_fields strip_hi
          new_item_sample empty_store_def put_item_fault_envs)
  from post_faults_are_caught [OF request_method, of failing_env "PyStr body_ok" empty_store] t
  show ?thesis
    by simp
qed

text \<open>
  C4, as stated, fails on a POST request that has no \<^verbatim>\<open>body\<close> key: the KeyError is
  neither a parse nor a validation failure, and it is answered with status 400.
\<close>

theorem missing_body_answered_400:
  "try_block sample_env [(''httpMethod'', PyStr ''POST'')] empty_store =
     (Inl (KeyError (quoted ''body'')), empty_store) \<and>
   lambda_handler sample_env [(''httpMethod'', PyStr ''POST'')] empty_store =
     (Inr \<lparr>statusCode = 400, headers = cors_headers,
           body = json_dumps [(''success'', JBool False),
                              (''error'', JString (''Missing expected field: '' @ quoted ''body''))]\<rparr>,
      empty_store)"
  by (simp add: lambda_handler_def try_block_def subscript_def)

end
